theory Spec2Isabelle
  imports Complex_Main
begin

chapter \<open>The model\<close>

section \<open>Python values and time\<close>

text \<open>
  Webhook payloads are decoded JSON, so the values the handlers move around are dynamically
  typed. \<open>PNone\<close> is Python's \<open>None\<close> (JSON \<open>null\<close>); JSON numbers are modelled as
  integers. A dict is an association list read with \<open>map_of\<close>.
\<close>

datatype pyval =
    PNone
  | PBool bool
  | PInt int
  | PStr string
  | PList "pyval list"
  | PDict "(string \<times> pyval) list"

text \<open>Truth value testing, as \<open>if x:\<close> and \<open>x or y\<close> do it.\<close>

fun truthy :: "pyval \<Rightarrow> bool" where
  "truthy PNone = False"
| "truthy (PBool b) = b"
| "truthy (PInt n) = (n \<noteq> 0)"
| "truthy (PStr s) = (s \<noteq> [])"
| "truthy (PList xs) = (xs \<noteq> [])"
| "truthy (PDict kvs) = (kvs \<noteq> [])"

definition py_or :: "pyval \<Rightarrow> pyval \<Rightarrow> pyval" where
  "py_or a b = (if truthy a then a else b)"

text \<open>\<open>k in d\<close>, \<open>d.get(k)\<close> and \<open>d.get(k, default)\<close> on a dict.\<close>

definition dict_has :: "(string \<times> pyval) list \<Rightarrow> string \<Rightarrow> bool" where
  "dict_has d k = (map_of d k \<noteq> None)"

definition dict_get_default :: "(string \<times> pyval) list \<Rightarrow> string \<Rightarrow> pyval \<Rightarrow> pyval" where
  "dict_get_default d k dflt = (case map_of d k of None \<Rightarrow> dflt | Some v \<Rightarrow> v)"

definition dict_get :: "(string \<times> pyval) list \<Rightarrow> string \<Rightarrow> pyval" where
  "dict_get d k = dict_get_default d k PNone"

text \<open>
  \<open>x.get(k)\<close> on a value that came out of a payload: only a dict has the method, every
  other value raises \<open>AttributeError\<close> (the result \<open>None\<close> of the model).
\<close>

fun val_get :: "pyval \<Rightarrow> string \<Rightarrow> pyval option" where
  "val_get (PDict d) k = Some (dict_get d k)"
| "val_get _ k = None"

text \<open>
  A naive \<open>datetime\<close> is a number of microseconds since the epoch and a \<open>timedelta\<close> a
  number of microseconds. \<open>total_seconds()\<close> is the whole difference in seconds; Python
  returns the float nearest to the quotient, the model keeps the quotient itself. The
  only use made of it below is the comparison with the whole number 300, which comes
  out the same on the float, since rounding to the nearest float is monotone and 300 is
  a float. The attribute \<open>seconds\<close> is only the seconds component of the normalised
  \<open>(days, seconds, microseconds)\<close> triple, between 0 and 86399.
\<close>

type_synonym datetime = int
type_synonym timedelta = int

definition total_seconds :: "timedelta \<Rightarrow> rat" where
  "total_seconds td = of_int td / 1000000"

definition td_seconds :: "timedelta \<Rightarrow> int" where
  "td_seconds td = (td mod 86400000000) div 1000000"

text \<open>
  Both types are bounded. \<open>timedelta(seconds=s)\<close> raises \<open>OverflowError\<close> when the
  number of days leaves the range of 999999999 on either side, and adding a \<open>timedelta\<close> to a \<open>datetime\<close> raises
  it when the sum leaves the years 1 to 9999 (\<open>datetime.min\<close> is 62135596800 s before the
  epoch, \<open>datetime.max\<close> one microsecond before 253402300800 s after it). \<open>None\<close> is
  the exception.
\<close>

definition timedelta_seconds :: "int \<Rightarrow> timedelta option" where
  "timedelta_seconds s =
     (if - 999999999 * 86400 \<le> s \<and> s < 1000000000 * 86400 then Some (s * 1000000) else None)"

definition datetime_min :: datetime where
  "datetime_min = - 62135596800 * 1000000"

definition datetime_max :: datetime where
  "datetime_max = 253402300800 * 1000000 - 1"

definition datetime_add :: "datetime \<Rightarrow> timedelta \<Rightarrow> datetime option" where
  "datetime_add d td =
     (if datetime_min \<le> d + td \<and> d + td \<le> datetime_max then Some (d + td) else None)"

text \<open>The exceptions that the modelled code raises or catches.\<close>

datatype exn =
    AttributeError
  | TypeError
  | OperationalError
  | DetachedInstanceError
  | UnboundLocalError

section \<open>The metrics caches\<close>

text \<open>
  \<open>monitoring/metrics.py\<close>: \<open>MetricsCollector.metrics_cache\<close> maps a cache key to the pair
  \<open>(cached_data, cache_time)\<close>; \<open>cache_duration\<close> is 300. The aggregate itself is read
  from the database: \<open>compute\<close> is that read, \<open>None\<close> when it raises (the function then
  returns the empty dict and caches nothing). The clock is read once for the freshness
  test (\<open>now\<close>) and once more when the result is stored (\<open>now_stored\<close>). \<open>date\<close> is the
  rendering of the date argument inside the key, \<open>today\<close> the one of the current day.
\<close>

type_synonym metrics_cache = "string \<rightharpoonup> (pyval \<times> datetime)"

definition cache_duration :: int where
  "cache_duration = 300"

definition collect_daily_metrics ::
  "(string \<Rightarrow> pyval option) \<Rightarrow> string \<Rightarrow> datetime \<Rightarrow> datetime \<Rightarrow> string option
    \<Rightarrow> metrics_cache \<Rightarrow> pyval \<times> metrics_cache" where
  "collect_daily_metrics compute today now now_stored date_arg mc =
     (let date = (case date_arg of None \<Rightarrow> today | Some d \<Rightarrow> d);
          cache_key = ''daily_metrics_'' @ date;
          hit = (case mc cache_key of
                   None \<Rightarrow> None
                 | Some (cached_data, cache_time) \<Rightarrow>
                     if td_seconds (now - cache_time) < cache_duration
                     then Some cached_data else None)
      in case hit of
           Some cached_data \<Rightarrow> (cached_data, mc)
         | None \<Rightarrow>
             (case compute date of
                None \<Rightarrow> (PDict [], mc)
              | Some metrics \<Rightarrow> (metrics, mc(cache_key \<mapsto> (metrics, now_stored)))))"

text \<open>
  \<open>monitoring/collectors.py\<close>: the second collector keeps \<open>{'data', 'timestamp'}\<close> entries
  and tests freshness in \<open>_is_cache_valid\<close> with \<open>total_seconds()\<close>; \<open>cache_ttl\<close> is 300.
\<close>

record cache_entry =
  entry_data :: pyval
  entry_timestamp :: datetime

type_synonym collector_cache = "string \<rightharpoonup> cache_entry"

definition cache_ttl :: int where
  "cache_ttl = 300"

definition is_cache_valid :: "datetime \<Rightarrow> collector_cache \<Rightarrow> string \<Rightarrow> bool" where
  "is_cache_valid now cache cache_key =
     (case cache cache_key of
        None \<Rightarrow> False
      | Some e \<Rightarrow> total_seconds (now - entry_timestamp e) < of_int cache_ttl)"

definition cache_result :: "datetime \<Rightarrow> collector_cache \<Rightarrow> string \<Rightarrow> pyval \<Rightarrow> collector_cache" where
  "cache_result now cache cache_key d = cache(cache_key \<mapsto> \<lparr>entry_data = d, entry_timestamp = now\<rparr>)"

section \<open>Rows found and changed through a query\<close>

text \<open>
  \<open>db.query(T).filter(p).first()\<close> returns the first row of the table that satisfies \<open>p\<close>
  (\<open>find\<close>); assigning to its attributes changes that row and no other one.
\<close>

primrec update_first :: "('a \<Rightarrow> bool) \<Rightarrow> ('a \<Rightarrow> 'a) \<Rightarrow> 'a list \<Rightarrow> 'a list" where
  "update_first p f [] = []"
| "update_first p f (x # xs) = (if p x then f x # xs else x # update_first p f xs)"


section \<open>Outbound webhook deliveries (webhooks/handlers.py)\<close>

text \<open>
  A row of \<open>webhook_logs\<close> with the columns of \<open>WebhookLog\<close> that the delivery code
  reads or writes. \<open>retry_count\<close> starts at 0 and is only ever incremented; \<open>max_retries\<close>
  is copied from the manager, which reads it from the environment (default 3) and does
  not check its sign. The store calls of this module are taken to succeed.
\<close>

record webhook_log =
  webhook_id :: string
  wl_call_id :: string
  wl_event_type :: string
  wl_payload :: pyval
  status_code :: "int option"
  response_body :: "string option"
  retry_count :: nat
  max_retries :: int
  next_retry_at :: "datetime option"
  delivered :: bool

record webhook_manager =
  webhook_urls :: "string list"
  mgr_max_retries :: int
  retry_delay :: int

definition default_webhook_manager :: "string list \<Rightarrow> webhook_manager" where
  "default_webhook_manager urls = \<lparr>webhook_urls = urls, mgr_max_retries = 3, retry_delay = 60\<rparr>"

text \<open>What one HTTP POST to a target does: a response, a timeout, or another exception.\<close>

datatype http_outcome = Response int string | TimeoutError | DeliveryError string

type_synonym deliver = "string \<Rightarrow> pyval \<Rightarrow> string \<Rightarrow> http_outcome"

definition has_webhook_id :: "string \<Rightarrow> webhook_log \<Rightarrow> bool" where
  "has_webhook_id wid w = (webhook_id w = wid)"

text \<open>
  \<open>_attempt_webhook_delivery\<close>. After a response, and after an exception other than the
  timeout, the function opens a \<open>get_db_session\<close> block to record the outcome; after a
  timeout it touches no session.
\<close>

definition attempt_webhook_delivery ::
  "deliver \<Rightarrow> string \<Rightarrow> pyval \<Rightarrow> string \<Rightarrow> webhook_log list \<Rightarrow> bool \<times> webhook_log list" where
  "attempt_webhook_delivery post url payload wid logs =
     (case post url payload wid of
        Response status response_text \<Rightarrow>
          (case find (has_webhook_id wid) logs of
             None \<Rightarrow> (False, logs)
           | Some w \<Rightarrow>
               if 200 \<le> status \<and> status < 300
               then (True, update_first (has_webhook_id wid)
                       (\<lambda>w. w\<lparr>status_code := Some status,
                               response_body := Some (take 1000 response_text),
                               delivered := True\<rparr>) logs)
               else (False, update_first (has_webhook_id wid)
                       (\<lambda>w. w\<lparr>status_code := Some status,
                               response_body := Some (take 1000 response_text)\<rparr>) logs))
      | TimeoutError \<Rightarrow> (False, logs)
      | DeliveryError msg \<Rightarrow>
          (False, update_first (has_webhook_id wid)
             (\<lambda>w. w\<lparr>response_body := Some (take 1000 msg)\<rparr>) logs))"

definition opens_session :: "http_outcome \<Rightarrow> bool" where
  "opens_session outcome = (outcome \<noteq> TimeoutError)"

text \<open>
  \<open>_schedule_webhook_retry\<close>: the count is incremented first, and the delay is computed
  from the incremented count, \<open>retry_delay * 2 ** retry_count\<close> seconds after the clock
  reading \<open>now\<close>. \<open>retry_time\<close> is that time; when the \<open>timedelta\<close> or the sum overflows,
  the exception leaves the \<open>with\<close> block, the session is rolled back (the increment with
  it) and the function returns with the row as it was.
\<close>

definition retry_time :: "webhook_manager \<Rightarrow> datetime \<Rightarrow> nat \<Rightarrow> datetime option" where
  "retry_time mgr now count =
     (case timedelta_seconds (retry_delay mgr * 2 ^ count) of
        None \<Rightarrow> None
      | Some delay \<Rightarrow> datetime_add now delay)"

definition schedule_webhook_retry ::
  "webhook_manager \<Rightarrow> datetime \<Rightarrow> string \<Rightarrow> webhook_log list \<Rightarrow> webhook_log list" where
  "schedule_webhook_retry mgr now wid logs =
     (case find (has_webhook_id wid) logs of
        None \<Rightarrow> logs
      | Some w \<Rightarrow>
          if int (retry_count w) < max_retries w
          then (case retry_time mgr now (retry_count w + 1) of
                  None \<Rightarrow> logs
                | Some t \<Rightarrow>
                    update_first (has_webhook_id wid)
                      (\<lambda>w. w\<lparr>retry_count := retry_count w + 1, next_retry_at := Some t\<rparr>) logs)
          else logs)"




text \<open>
  The retry sweep \<open>process_webhook_retries\<close>. Its query selects the rows that are
  undelivered, below their cap and due (a row without \<open>next_retry_at\<close> is never due).
  The selected rows are the positions \<open>i\<close> of the table. For each one the sweep clears
  \<open>next_retry_at\<close> and commits, tries the target URLs in order until one succeeds, and
  reschedules when none did.

  The sweep reads and writes the selected rows through the objects of its own session,
  and \<open>db_manager.get_db_session()\<close> hands out one \<open>scoped_session\<close> per thread: the
  block that \<open>_attempt_webhook_delivery\<close> or \<open>_schedule_webhook_retry\<close> opens is on the
  same session, and its \<open>db.close()\<close> detaches every object of the sweep, already expired
  by the commit. \<open>attached\<close> tells whether the sweep's objects still belong to the
  session. Reading \<open>webhook_log.payload\<close> or \<open>webhook_log.webhook_id\<close> of a detached
  object raises \<open>DetachedInstanceError\<close>, which ends the sweep; assigning
  \<open>next_retry_at\<close> of a detached object reaches no table. The variable \<open>success\<close> is
  unbound until the first attempt (\<open>None\<close>); reading it unbound raises and ends the sweep
  as well.
\<close>

definition due :: "datetime \<Rightarrow> webhook_log \<Rightarrow> bool" where
  "due now w =
     (\<not> delivered w \<and> int (retry_count w) < max_retries w \<and>
      (case next_retry_at w of None \<Rightarrow> False | Some t \<Rightarrow> t \<le> now))"

definition pending_webhooks :: "datetime \<Rightarrow> webhook_log list \<Rightarrow> nat list" where
  "pending_webhooks now logs = filter (\<lambda>i. due now (logs ! i)) [0..<length logs]"

fun try_urls ::
  "deliver \<Rightarrow> string list \<Rightarrow> nat \<Rightarrow> bool \<Rightarrow> bool option \<Rightarrow> webhook_log list
    \<Rightarrow> (exn + bool option) \<times> bool \<times> webhook_log list" where
  "try_urls post [] i attached success logs = (Inr success, attached, logs)"
| "try_urls post (url # urls) i attached success logs =
     (if \<not> attached then (Inl DetachedInstanceError, attached, logs)
      else
        (let payload = wl_payload (logs ! i);
             wid = webhook_id (logs ! i);
             attached' = (\<not> opens_session (post url payload wid))
         in case attempt_webhook_delivery post url payload wid logs of
              (True, logs') \<Rightarrow> (Inr (Some True), attached', logs')
            | (False, logs') \<Rightarrow> try_urls post urls i attached' (Some False) logs'))"

fun retry_each ::
  "webhook_manager \<Rightarrow> deliver \<Rightarrow> (string \<Rightarrow> datetime) \<Rightarrow> nat list \<Rightarrow> bool \<Rightarrow> bool option
    \<Rightarrow> webhook_log list \<Rightarrow> webhook_log list" where
  "retry_each mgr post clock [] attached success logs = logs"
| "retry_each mgr post clock (i # rest) attached success logs =
     (let logs1 = (if attached then logs[i := (logs ! i)\<lparr>next_retry_at := None\<rparr>] else logs)
      in case try_urls post (webhook_urls mgr) i attached success logs1 of
           (Inl e, attached', logs2) \<Rightarrow> logs2
         | (Inr None, attached', logs2) \<Rightarrow> logs2
         | (Inr (Some True), attached', logs2) \<Rightarrow>
             retry_each mgr post clock rest attached' (Some True) logs2
         | (Inr (Some False), attached', logs2) \<Rightarrow>
             if \<not> attached' then logs2
             else retry_each mgr post clock rest False (Some False)
                    (schedule_webhook_retry mgr (clock (webhook_id (logs2 ! i)))
                       (webhook_id (logs2 ! i)) logs2))"

definition process_webhook_retries ::
  "webhook_manager \<Rightarrow> deliver \<Rightarrow> datetime \<Rightarrow> (string \<Rightarrow> datetime) \<Rightarrow> webhook_log list
    \<Rightarrow> webhook_log list" where
  "process_webhook_retries mgr post now clock logs =
     retry_each mgr post clock (pending_webhooks now logs) True None logs"




section \<open>Phone validation (validation/phone_validator.py)\<close>

text \<open>
  The \<open>phonenumbers\<close> library is outside the repository. \<open>phone_lookup\<close> is what it
  reports for an input in a region: a parse exception, another exception, a number that
  parses but is not valid, or a valid number with its renderings (an inner lookup that
  raises leaves \<open>None\<close> in its field).
\<close>

record phone_info =
  formatted_national :: string
  formatted_international :: string
  formatted_e164 :: string
  country_code :: int
  region :: pyval
  carrier :: pyval
  location :: pyval
  timezone :: pyval
  number_type :: pyval

datatype phone_lookup =
    NumberParseException string
  | OtherException string
  | InvalidNumber
  | ValidNumber phone_info

type_synonym phonenumbers = "pyval \<Rightarrow> string \<Rightarrow> phone_lookup"

definition default_region :: string where
  "default_region = ''US''"

definition validation_result :: "bool \<Rightarrow> phone_info option \<Rightarrow> pyval \<Rightarrow> pyval" where
  "validation_result valid info err =
     PDict [(''is_valid'', PBool valid),
            (''formatted_national'', case info of None \<Rightarrow> PNone | Some i \<Rightarrow> PStr (formatted_national i)),
            (''formatted_international'', case info of None \<Rightarrow> PNone | Some i \<Rightarrow> PStr (formatted_international i)),
            (''formatted_e164'', case info of None \<Rightarrow> PNone | Some i \<Rightarrow> PStr (formatted_e164 i)),
            (''country_code'', case info of None \<Rightarrow> PNone | Some i \<Rightarrow> PInt (country_code i)),
            (''region'', case info of None \<Rightarrow> PNone | Some i \<Rightarrow> region i),
            (''carrier'', case info of None \<Rightarrow> PNone | Some i \<Rightarrow> carrier i),
            (''location'', case info of None \<Rightarrow> PNone | Some i \<Rightarrow> location i),
            (''timezone'', case info of None \<Rightarrow> PNone | Some i \<Rightarrow> timezone i),
            (''number_type'', case info of None \<Rightarrow> PNone | Some i \<Rightarrow> number_type i),
            (''error'', err)]"

text \<open>
  \<open>validate_phone_number\<close> always returns the result dict, for a valid number and for
  an invalid one alike; every exception is caught inside.
\<close>

definition validate_phone_number :: "phonenumbers \<Rightarrow> pyval \<Rightarrow> string option \<Rightarrow> pyval" where
  "validate_phone_number lib phone_number region_arg =
     (let region_code = (case region_arg of None \<Rightarrow> default_region
                         | Some r \<Rightarrow> if r = [] then default_region else r)
      in case lib phone_number region_code of
           ValidNumber info \<Rightarrow> validation_result True (Some info) PNone
         | InvalidNumber \<Rightarrow> validation_result False None (PStr ''Invalid phone number'')
         | NumberParseException e \<Rightarrow> validation_result False None (PStr (''Parse error: '' @ e))
         | OtherException e \<Rightarrow> validation_result False None (PStr (''Validation error: '' @ e)))"

text \<open>\<open>format_for_dialing\<close>, the sibling that returns the E.164 string or \<open>None\<close>.\<close>

definition format_for_dialing :: "phonenumbers \<Rightarrow> pyval \<Rightarrow> string option \<Rightarrow> pyval" where
  "format_for_dialing lib phone_number region_arg =
     (case validate_phone_number lib phone_number region_arg of
        PDict r \<Rightarrow> if truthy (dict_get r ''is_valid'') then dict_get r ''formatted_e164'' else PNone
      | _ \<Rightarrow> PNone)"

section \<open>The call store (database/models.py, database/connection.py)\<close>

text \<open>
  The rows of \<open>call_logs\<close> and \<open>call_events\<close> have the columns that \<open>CallLog\<close> and
  \<open>CallEvent\<close> declare in \<open>database/models.py\<close>; \<open>call_log_attributes\<close> and
  \<open>call_event_attributes\<close> are the names a keyword of the constructor may have (the
  columns and the relationships). Rows are kept in insertion order. The primary key
  of a call event and its \<open>timestamp\<close> are filled in by the database and are left out
  of the row.
\<close>

record call_log =
  cl_id :: nat
  cl_call_id :: pyval
  room_name :: pyval
  dispatch_id :: pyval
  customer_id :: "nat option"
  customer_name :: pyval
  customer_phone :: pyval
  customer_email :: pyval
  customer_query :: pyval
  status :: string
  call_started_at :: "datetime option"
  call_connected_at :: "datetime option"
  call_ended_at :: "datetime option"
  duration_seconds :: "int option"
  participant_identity :: pyval
  call_metadata :: pyval

record call_event =
  ce_call_id :: pyval
  ce_event_type :: pyval
  event_data :: pyval

record customer =
  cu_name :: pyval
  cu_phone :: pyval
  cu_email :: pyval

definition call_log_attributes :: "string list" where
  "call_log_attributes =
     [''id'', ''call_id'', ''room_name'', ''dispatch_id'', ''customer_id'', ''customer_name'',
      ''customer_phone'', ''customer_email'', ''customer_query'', ''status'',
      ''call_started_at'', ''call_connected_at'', ''call_ended_at'', ''duration_seconds'',
      ''participant_identity'', ''call_metadata'', ''customer'', ''events'']"

definition call_event_attributes :: "string list" where
  "call_event_attributes =
     [''id'', ''call_id'', ''event_type'', ''event_data'', ''timestamp'', ''call'']"

text \<open>
  The constructor of a declarative class takes keywords only; a keyword that is not an
  attribute of the class raises \<open>TypeError\<close>.
\<close>

definition CallEvent :: "(string \<times> pyval) list \<Rightarrow> exn + call_event" where
  "CallEvent kwargs =
     (if list_all (\<lambda>k. k \<in> set call_event_attributes) (map fst kwargs)
      then Inr \<lparr>ce_call_id = dict_get kwargs ''call_id'',
                ce_event_type = dict_get kwargs ''event_type'',
                event_data = dict_get kwargs ''event_data''\<rparr>
      else Inl TypeError)"

text \<open>
  An assignment \<open>call_log.name = value\<close> to a name that \<open>CallLog\<close> does not map
  (\<open>updated_at\<close>, \<open>duration\<close>, \<open>recording_url\<close>, \<open>recording_duration\<close>,
  \<open>transcript_url\<close>, \<open>error_details\<close>) sets a plain attribute of the Python object: no
  flush writes it, the row stays as it is, and the value is dropped. Where computing the
  value can raise (\<open>event.data.get\<close> on a value that is no dict), the handler below has
  the case.
\<close>

definition plain_attribute :: "string \<Rightarrow> call_log \<Rightarrow> call_log" where
  "plain_attribute name c = c"

text \<open>
  The store is what the one \<open>scoped_session\<close> of \<open>db_manager\<close> shows (the tables
  \<open>call_logs\<close>, \<open>call_events\<close> and \<open>customers\<close>, with the changes of the session that are
  not committed yet) together with what is committed (\<open>on_disk\<close>). A query reads the
  former; \<open>db.commit()\<close> writes it to disk, \<open>db.rollback()\<close> goes back to what is on disk.
  \<open>db.close()\<close> comes after one of the two in every path of the source and has nothing
  left to discard. \<open>inbound_logs\<close> is the table that \<open>_log_webhook\<close> and
  \<open>_update_webhook_log\<close> write.
\<close>

record tables =
  t_call_logs :: "call_log list"
  t_call_events :: "call_event list"
  t_customers :: "customer list"

record store =
  call_logs :: "call_log list"
  call_events :: "call_event list"
  customers :: "customer list"
  inbound_logs :: "webhook_log list"
  on_disk :: tables

definition session_view :: "store \<Rightarrow> tables" where
  "session_view st =
     \<lparr>t_call_logs = call_logs st, t_call_events = call_events st, t_customers = customers st\<rparr>"

definition db_commit :: "store \<Rightarrow> store" where
  "db_commit db = db\<lparr>on_disk := session_view db\<rparr>"

definition db_rollback :: "store \<Rightarrow> store" where
  "db_rollback db =
     db\<lparr>call_logs := t_call_logs (on_disk db), call_events := t_call_events (on_disk db),
        customers := t_customers (on_disk db)\<rparr>"

definition db_close :: "store \<Rightarrow> store" where
  "db_close db = db"

text \<open>
  \<open>get_db_session\<close> is the context manager of \<open>DatabaseManager\<close>: the body runs on the
  session; when the body ends normally the session is committed, when it raises the
  session is rolled back and the exception is raised again; the session is closed in
  both cases.
\<close>

definition get_db_session ::
  "(store \<Rightarrow> (exn + 'a) \<times> store) \<Rightarrow> store \<Rightarrow> (exn + 'a) \<times> store" where
  "get_db_session body st =
     (case body st of
        (Inr v, db) \<Rightarrow> (Inr v, db_close (db_commit db))
      | (Inl e, db) \<Rightarrow> (Inl e, db_close (db_rollback db)))"

text \<open>
  The handlers' \<open>try: ... except Exception: return False\<close> around the \<open>with\<close> block, and
  the result of a call that cannot raise.
\<close>

definition except_false :: "(exn + bool) \<times> store \<Rightarrow> bool \<times> store" where
  "except_false r = (case r of (Inr b, st) \<Rightarrow> (b, st) | (Inl e, st) \<Rightarrow> (False, st))"

definition no_raise :: "bool \<times> store \<Rightarrow> (exn + bool) \<times> store" where
  "no_raise r = (case r of (b, st) \<Rightarrow> (Inr b, st))"

definition has_call_id :: "pyval \<Rightarrow> call_log \<Rightarrow> bool" where
  "has_call_id cid c = (cl_call_id c = cid)"

definition find_call :: "store \<Rightarrow> pyval \<Rightarrow> call_log option" where
  "find_call st cid = find (has_call_id cid) (call_logs st)"

definition next_call_log_id :: "call_log list \<Rightarrow> nat" where
  "next_call_log_id rows = Suc (fold max (map cl_id rows) 0)"

section \<open>Inbound webhook events (webhooks/events.py)\<close>

text \<open>\<open>WebhookEvent\<close>, the parsed form of a payload.\<close>

record webhook_event =
  event_type :: pyval
  call_id :: pyval
  timestamp :: datetime
  data :: pyval
  source :: string

text \<open>
  \<open>_parse_webhook_event\<close>. \<open>strptime\<close> is \<open>datetime.strptime\<close> (\<open>None\<close> for its
  \<open>ValueError\<close>), \<open>now\<close> the reading of \<open>datetime.utcnow()\<close>.
\<close>

fun try_formats :: "(string \<Rightarrow> string \<Rightarrow> datetime option) \<Rightarrow> string list \<Rightarrow> string \<Rightarrow> datetime \<Rightarrow> datetime" where
  "try_formats strptime [] s now = now"
| "try_formats strptime (fmt # fmts) s now =
     (case strptime s fmt of Some t \<Rightarrow> t | None \<Rightarrow> try_formats strptime fmts s now)"

definition parse_timestamp :: "(string \<Rightarrow> string \<Rightarrow> datetime option) \<Rightarrow> datetime \<Rightarrow> pyval \<Rightarrow> datetime" where
  "parse_timestamp strptime now timestamp_str =
     (if truthy timestamp_str
      then (case timestamp_str of
              PStr s \<Rightarrow> try_formats strptime
                         [''%Y-%m-%dT%H:%M:%S.%fZ'', ''%Y-%m-%dT%H:%M:%SZ'', ''%Y-%m-%d %H:%M:%S''] s now
            | _ \<Rightarrow> now)
      else now)"

definition parse_webhook_event ::
  "(string \<Rightarrow> string \<Rightarrow> datetime option) \<Rightarrow> datetime \<Rightarrow> (string \<times> pyval) list \<Rightarrow> string
    \<Rightarrow> webhook_event option" where
  "parse_webhook_event strptime now payload src =
     (case (if dict_has payload ''event_type''
            then Some (dict_get payload ''event_type'',
                       dict_get payload ''call_id'',
                       dict_get_default payload ''data'' (PDict []),
                       dict_get payload ''timestamp'')
            else if dict_has payload ''type''
            then Some (dict_get payload ''type'',
                       py_or (dict_get payload ''callId'') (dict_get payload ''call_id''),
                       dict_get_default payload ''payload'' (PDict payload),
                       py_or (dict_get payload ''createdAt'') (dict_get payload ''timestamp''))
            else None) of
        None \<Rightarrow> None
      | Some (ev_type, cid, d, timestamp_str) \<Rightarrow>
          if \<not> truthy cid then None
          else Some \<lparr>event_type = ev_type, call_id = cid,
                     timestamp = parse_timestamp strptime now timestamp_str,
                     data = d, source = src\<rparr>)"

text \<open>
  What a handler gets from outside. \<open>fault\<close> names the store call of the transaction
  that raises, if one does. \<open>_log_webhook\<close> and \<open>_update_webhook_log\<close> are called by
  \<open>process_webhook\<close> but defined nowhere in the repository: they are parameters,
  functions on the inbound webhook log, \<open>None\<close> when they raise.
\<close>

datatype fault =
    NoFault
  | QueryFails
  | AddCallLogFails
  | AddCallEventFails
  | CommitFails

record env =
  parse_utcnow :: datetime
  strptime :: "string \<Rightarrow> string \<Rightarrow> datetime option"
  fault :: fault
  phonelib :: phonenumbers
  log_webhook :: "(string \<times> pyval) list \<Rightarrow> string \<Rightarrow> webhook_log list \<Rightarrow> (pyval \<times> webhook_log list) option"
  update_webhook_log :: "pyval \<Rightarrow> bool \<Rightarrow> webhook_log list \<Rightarrow> webhook_log list option"

text \<open>
  The class body of \<open>WebhookEventProcessor\<close> ends after \<open>_handle_call_answered\<close>: these
  are its methods. Every function from \<open>_handle_call_completed\<close> on stands at module
  level, with a first parameter called \<open>self\<close>; it is not an attribute of the class or of
  its objects, and \<open>self._handle_call_completed\<close>, \<open>self._update_call_status\<close>,
  \<open>self._handle_unknown_event\<close> and so on raise \<open>AttributeError\<close>. So does
  \<open>self._upsert_customer\<close>, which is defined nowhere. \<open>metrics_collector\<close> is the
  object of \<open>monitoring/metrics.py\<close>, with the methods of its class.
\<close>

definition processor_methods :: "string list" where
  "processor_methods =
     [''__init__'', ''process_webhook'', ''_parse_webhook_event'', ''_process_event'',
      ''_handle_call_initiated'', ''_handle_call_connected'', ''_handle_call_answered'']"

definition has_method :: "string \<Rightarrow> bool" where
  "has_method name = (name \<in> set processor_methods)"

definition metrics_collector_methods :: "string list" where
  "metrics_collector_methods =
     [''__init__'', ''collect_daily_metrics'', ''collect_hourly_metrics'',
      ''get_call_duration_distribution'', ''get_top_failure_reasons'', ''get_peak_hours'',
      ''store_daily_metrics'', ''get_metrics_summary'']"

definition metrics_collector_has :: "string \<Rightarrow> bool" where
  "metrics_collector_has name = (name \<in> set metrics_collector_methods)"

text \<open>
  Assigning to the attributes of the queried row, \<open>db.add\<close> of a new row. A \<open>CallLog\<close>
  gets its primary key when it is flushed; the object built by the constructor has
  \<open>id = None\<close> until then. The assignments of each handler are a function on the row
  (\<open>..._fields\<close>).
\<close>

definition set_call :: "pyval \<Rightarrow> (call_log \<Rightarrow> call_log) \<Rightarrow> store \<Rightarrow> store" where
  "set_call cid f db = db\<lparr>call_logs := update_first (has_call_id cid) f (call_logs db)\<rparr>"

definition add_call_log :: "call_log \<Rightarrow> store \<Rightarrow> store" where
  "add_call_log c db =
     db\<lparr>call_logs := call_logs db @ [c\<lparr>cl_id := next_call_log_id (call_logs db)\<rparr>]\<rparr>"

definition add_call_event :: "call_event \<Rightarrow> store \<Rightarrow> store" where
  "add_call_event ev db = db\<lparr>call_events := call_events db @ [ev]\<rparr>"

text \<open>
  The two ways in which the handlers build a \<open>CallEvent\<close>: with the keyword
  \<open>call_log_id\<close>, and with the keyword \<open>call_id\<close>.
\<close>

definition linked_event :: "pyval \<Rightarrow> webhook_event \<Rightarrow> exn + call_event" where
  "linked_event log_id event =
     CallEvent [(''call_log_id'', log_id), (''event_type'', event_type event),
                (''event_data'', data event)]"

definition unlinked_event :: "webhook_event \<Rightarrow> exn + call_event" where
  "unlinked_event event =
     CallEvent [(''call_id'', call_id event), (''event_type'', event_type event),
                (''event_data'', data event)]"

text \<open>
  The common tail of the handlers, \<open>call_event = CallEvent(...); db.add(call_event);
  db.commit()\<close>, given what the constructor did.
\<close>

definition add_event_and_commit :: "env \<Rightarrow> exn + call_event \<Rightarrow> store \<Rightarrow> (exn + bool) \<times> store" where
  "add_event_and_commit env built db =
     (case built of
        Inl e \<Rightarrow> (Inl e, db)
      | Inr call_event \<Rightarrow>
          if fault env = AddCallEventFails then (Inl OperationalError, db)
          else let db' = add_call_event call_event db
               in if fault env = CommitFails then (Inl OperationalError, db')
                  else (Inr True, db_commit db'))"

text \<open>
  \<open>_handle_call_initiated\<close>. \<open>checked_phone\<close> is the value of \<open>customer_phone\<close> after
  the validation step.
\<close>

definition new_call_log :: "webhook_event \<Rightarrow> (string \<times> pyval) list \<Rightarrow> pyval \<Rightarrow> pyval \<Rightarrow> pyval \<Rightarrow> pyval \<Rightarrow> call_log" where
  "new_call_log event d name phone email query =
     \<lparr>cl_id = 0, cl_call_id = call_id event,
      room_name = dict_get d ''room_name'', dispatch_id = dict_get d ''dispatch_id'',
      customer_id = None, customer_name = name, customer_phone = phone,
      customer_email = email, customer_query = query, status = ''initiated'',
      call_started_at = Some (timestamp event), call_connected_at = None,
      call_ended_at = None, duration_seconds = None, participant_identity = PNone,
      call_metadata = PNone\<rparr>"

definition checked_phone :: "env \<Rightarrow> pyval \<Rightarrow> pyval" where
  "checked_phone env phone =
     (if truthy phone
      then (let validated_phone = validate_phone_number (phonelib env) phone None
            in if truthy validated_phone then validated_phone else phone)
      else phone)"

definition initiated_fields :: "webhook_event \<Rightarrow> call_log \<Rightarrow> call_log" where
  "initiated_fields event c =
     plain_attribute ''updated_at''
       (c\<lparr>status := ''initiated'', call_started_at := Some (timestamp event)\<rparr>)"

definition handle_call_initiated_body :: "env \<Rightarrow> webhook_event \<Rightarrow> store \<Rightarrow> (exn + bool) \<times> store" where
  "handle_call_initiated_body env event db =
     (case data event of
        PDict d \<Rightarrow>
          (let phone = checked_phone env
                 (py_or (dict_get d ''customer_phone'') (dict_get d ''to''));
               name = dict_get d ''customer_name'';
               email = dict_get d ''customer_email'';
               query = py_or (dict_get d ''customer_query'') (dict_get d ''query'')
           in if fault env = QueryFails then (Inl OperationalError, db)
              else
                (case (case find_call db (call_id event) of
                         None \<Rightarrow>
                           if fault env = AddCallLogFails then None
                           else Some (PNone, add_call_log
                                   (new_call_log event d name phone email query) db)
                       | Some call_log \<Rightarrow>
                           Some (PInt (int (cl_id call_log)),
                                 set_call (call_id event) (initiated_fields event) db)) of
                   None \<Rightarrow> (Inl OperationalError, db)
                 | Some (log_id, db1) \<Rightarrow>
                     (case linked_event log_id event of
                        Inl e \<Rightarrow> (Inl e, db1)
                      | Inr call_event \<Rightarrow>
                          if fault env = AddCallEventFails then (Inl OperationalError, db1)
                          else
                            (let db2 = add_call_event call_event db1
                             in if truthy phone \<and> \<not> has_method ''_upsert_customer''
                                then (Inl AttributeError, db2)
                                else if fault env = CommitFails then (Inl OperationalError, db2)
                                else (Inr True, db_commit db2)))))
      | _ \<Rightarrow> (Inl AttributeError, db))"

definition handle_call_initiated :: "env \<Rightarrow> webhook_event \<Rightarrow> store \<Rightarrow> bool \<times> store" where
  "handle_call_initiated env event st =
     except_false (get_db_session (handle_call_initiated_body env event) st)"

text \<open>
  \<open>_update_call_status\<close>, a function at module level that does not use its parameter
  \<open>self\<close>.
\<close>

definition status_fields :: "string \<Rightarrow> pyval \<Rightarrow> call_log \<Rightarrow> call_log" where
  "status_fields new_status err c =
     (let c1 = plain_attribute ''updated_at'' (c\<lparr>status := new_status\<rparr>)
      in if truthy err then plain_attribute ''error_details'' c1 else c1)"

definition update_call_status_body ::
  "env \<Rightarrow> webhook_event \<Rightarrow> string \<Rightarrow> pyval \<Rightarrow> store \<Rightarrow> (exn + bool) \<times> store" where
  "update_call_status_body env event new_status err db =
     (if fault env = QueryFails then (Inl OperationalError, db)
      else case find_call db (call_id event) of
             None \<Rightarrow> (Inr False, db)
           | Some call_log \<Rightarrow>
               add_event_and_commit env (linked_event (PInt (int (cl_id call_log))) event)
                 (set_call (call_id event) (status_fields new_status err) db))"

definition update_call_status :: "env \<Rightarrow> webhook_event \<Rightarrow> string \<Rightarrow> pyval \<Rightarrow> store \<Rightarrow> bool \<times> store" where
  "update_call_status env event new_status err st =
     except_false (get_db_session (update_call_status_body env event new_status err) st)"

text \<open>
  The six handlers that call \<open>self._update_call_status\<close>: two methods of the class and
  four functions at module level. The attribute is looked up before the arguments are
  evaluated, and the handlers have no \<open>try\<close> of their own.
\<close>

definition self_update_call_status ::
  "env \<Rightarrow> webhook_event \<Rightarrow> string \<Rightarrow> pyval \<Rightarrow> store \<Rightarrow> (exn + bool) \<times> store" where
  "self_update_call_status env event new_status err st =
     (if has_method ''_update_call_status''
      then no_raise (update_call_status env event new_status err st)
      else (Inl AttributeError, st))"

definition handle_call_connected :: "env \<Rightarrow> webhook_event \<Rightarrow> store \<Rightarrow> (exn + bool) \<times> store" where
  "handle_call_connected env event st = self_update_call_status env event ''connected'' PNone st"

definition handle_call_answered :: "env \<Rightarrow> webhook_event \<Rightarrow> store \<Rightarrow> (exn + bool) \<times> store" where
  "handle_call_answered env event st = self_update_call_status env event ''answered'' PNone st"

definition handle_call_failed :: "env \<Rightarrow> webhook_event \<Rightarrow> store \<Rightarrow> (exn + bool) \<times> store" where
  "handle_call_failed env event st =
     (if has_method ''_update_call_status''
      then (case val_get (data event) ''error'' of
              None \<Rightarrow> (Inl AttributeError, st)
            | Some err \<Rightarrow> no_raise (update_call_status env event ''failed'' err st))
      else (Inl AttributeError, st))"

definition handle_call_cancelled :: "env \<Rightarrow> webhook_event \<Rightarrow> store \<Rightarrow> (exn + bool) \<times> store" where
  "handle_call_cancelled env event st = self_update_call_status env event ''cancelled'' PNone st"

definition handle_call_no_answer :: "env \<Rightarrow> webhook_event \<Rightarrow> store \<Rightarrow> (exn + bool) \<times> store" where
  "handle_call_no_answer env event st = self_update_call_status env event ''no_answer'' PNone st"

definition handle_call_busy :: "env \<Rightarrow> webhook_event \<Rightarrow> store \<Rightarrow> (exn + bool) \<times> store" where
  "handle_call_busy env event st = self_update_call_status env event ''busy'' PNone st"

text \<open>
  \<open>_handle_call_completed\<close>; the call of the metrics collector comes after the commit.
\<close>

definition completed_fields :: "webhook_event \<Rightarrow> call_log \<Rightarrow> call_log" where
  "completed_fields event c =
     plain_attribute ''duration''
       (plain_attribute ''updated_at''
          (c\<lparr>status := ''completed'', call_ended_at := Some (timestamp event)\<rparr>))"

definition handle_call_completed_body :: "env \<Rightarrow> webhook_event \<Rightarrow> store \<Rightarrow> (exn + bool) \<times> store" where
  "handle_call_completed_body env event db =
     (if fault env = QueryFails then (Inl OperationalError, db)
      else case find_call db (call_id event) of
             None \<Rightarrow> (Inr False, db)
           | Some call_log \<Rightarrow>
               (case add_event_and_commit env (linked_event (PInt (int (cl_id call_log))) event)
                       (set_call (call_id event) (completed_fields event) db) of
                  (Inl e, db') \<Rightarrow> (Inl e, db')
                | (Inr b, db') \<Rightarrow>
                    if metrics_collector_has ''record_call_duration'' then (Inr True, db')
                    else (Inl AttributeError, db')))"

definition handle_call_completed :: "env \<Rightarrow> webhook_event \<Rightarrow> store \<Rightarrow> bool \<times> store" where
  "handle_call_completed env event st =
     except_false (get_db_session (handle_call_completed_body env event) st)"

text \<open>The enrichment handlers: the assignments each one makes, then the handlers.\<close>

definition recording_fields :: "call_log \<Rightarrow> call_log" where
  "recording_fields c =
     plain_attribute ''updated_at''
       (plain_attribute ''recording_duration'' (plain_attribute ''recording_url'' c))"

definition transcript_fields :: "call_log \<Rightarrow> call_log" where
  "transcript_fields c = plain_attribute ''updated_at'' (plain_attribute ''transcript_url'' c)"

definition error_fields :: "call_log \<Rightarrow> call_log" where
  "error_fields c = plain_attribute ''updated_at'' (plain_attribute ''error_details'' c)"

definition handle_recording_ready_body :: "env \<Rightarrow> webhook_event \<Rightarrow> store \<Rightarrow> (exn + bool) \<times> store" where
  "handle_recording_ready_body env event db =
     (if fault env = QueryFails then (Inl OperationalError, db)
      else case find_call db (call_id event) of
             None \<Rightarrow> (Inr False, db)
           | Some call_log \<Rightarrow>
               (case data event of
                  PDict d \<Rightarrow>
                    add_event_and_commit env (linked_event (PInt (int (cl_id call_log))) event)
                      (set_call (call_id event) recording_fields db)
                | _ \<Rightarrow> (Inl AttributeError, db)))"

definition handle_recording_ready :: "env \<Rightarrow> webhook_event \<Rightarrow> store \<Rightarrow> bool \<times> store" where
  "handle_recording_ready env event st =
     except_false (get_db_session (handle_recording_ready_body env event) st)"

definition handle_transcript_ready_body :: "env \<Rightarrow> webhook_event \<Rightarrow> store \<Rightarrow> (exn + bool) \<times> store" where
  "handle_transcript_ready_body env event db =
     (if fault env = QueryFails then (Inl OperationalError, db)
      else case find_call db (call_id event) of
             None \<Rightarrow> (Inr False, db)
           | Some call_log \<Rightarrow>
               (case data event of
                  PDict d \<Rightarrow>
                    add_event_and_commit env (linked_event (PInt (int (cl_id call_log))) event)
                      (set_call (call_id event) transcript_fields db)
                | _ \<Rightarrow> (Inl AttributeError, db)))"

definition handle_transcript_ready :: "env \<Rightarrow> webhook_event \<Rightarrow> store \<Rightarrow> bool \<times> store" where
  "handle_transcript_ready env event st =
     except_false (get_db_session (handle_transcript_ready_body env event) st)"

definition handle_error_occurred_body :: "env \<Rightarrow> webhook_event \<Rightarrow> store \<Rightarrow> (exn + bool) \<times> store" where
  "handle_error_occurred_body env event db =
     (if fault env = QueryFails then (Inl OperationalError, db)
      else case find_call db (call_id event) of
             None \<Rightarrow> (Inr False, db)
           | Some call_log \<Rightarrow>
               (case data event of
                  PDict d \<Rightarrow>
                    (case add_event_and_commit env (linked_event (PInt (int (cl_id call_log))) event)
                            (set_call (call_id event) error_fields db) of
                       (Inl e, db') \<Rightarrow> (Inl e, db')
                     | (Inr b, db') \<Rightarrow>
                         if metrics_collector_has ''record_error'' then (Inr True, db')
                         else (Inl AttributeError, db'))
                | _ \<Rightarrow> (Inl AttributeError, db)))"

definition handle_error_occurred :: "env \<Rightarrow> webhook_event \<Rightarrow> store \<Rightarrow> bool \<times> store" where
  "handle_error_occurred env event st =
     except_false (get_db_session (handle_error_occurred_body env event) st)"

text \<open>
  \<open>_log_participant_event\<close> and \<open>_handle_unknown_event\<close>, at module level too, add the
  event without looking the call up, and build it with the keyword \<open>call_id\<close>. The two
  participant handlers go through \<open>self._log_participant_event\<close>.
\<close>

definition log_participant_event :: "env \<Rightarrow> webhook_event \<Rightarrow> store \<Rightarrow> bool \<times> store" where
  "log_participant_event env event st =
     except_false (get_db_session (add_event_and_commit env (unlinked_event event)) st)"

definition handle_participant_joined :: "env \<Rightarrow> webhook_event \<Rightarrow> store \<Rightarrow> (exn + bool) \<times> store" where
  "handle_participant_joined env event st =
     (if has_method ''_log_participant_event'' then no_raise (log_participant_event env event st)
      else (Inl AttributeError, st))"

definition handle_participant_left :: "env \<Rightarrow> webhook_event \<Rightarrow> store \<Rightarrow> (exn + bool) \<times> store" where
  "handle_participant_left env event st =
     (if has_method ''_log_participant_event'' then no_raise (log_participant_event env event st)
      else (Inl AttributeError, st))"

definition handle_unknown_event :: "env \<Rightarrow> webhook_event \<Rightarrow> store \<Rightarrow> bool \<times> store" where
  "handle_unknown_event env event st =
     except_false (get_db_session (add_event_and_commit env (unlinked_event event)) st)"

text \<open>
  \<open>__init__\<close> builds the dict \<open>event_handlers\<close> from thirteen attribute lookups on
  \<open>self\<close>, in this order; the first name that is not a method raises \<open>AttributeError\<close>
  and the attribute \<open>event_handlers\<close> is never set.
\<close>

type_synonym handler = "env \<Rightarrow> webhook_event \<Rightarrow> store \<Rightarrow> (exn + bool) \<times> store"

definition handler_table :: "(string \<times> string \<times> handler) list" where
  "handler_table =
     [(''call.initiated'', ''_handle_call_initiated'',
         \<lambda>env event st. no_raise (handle_call_initiated env event st)),
      (''call.connected'', ''_handle_call_connected'', handle_call_connected),
      (''call.answered'', ''_handle_call_answered'', handle_call_answered),
      (''call.completed'', ''_handle_call_completed'',
         \<lambda>env event st. no_raise (handle_call_completed env event st)),
      (''call.failed'', ''_handle_call_failed'', handle_call_failed),
      (''call.cancelled'', ''_handle_call_cancelled'', handle_call_cancelled),
      (''call.no_answer'', ''_handle_call_no_answer'', handle_call_no_answer),
      (''call.busy'', ''_handle_call_busy'', handle_call_busy),
      (''recording.ready'', ''_handle_recording_ready'',
         \<lambda>env event st. no_raise (handle_recording_ready env event st)),
      (''transcript.ready'', ''_handle_transcript_ready'',
         \<lambda>env event st. no_raise (handle_transcript_ready env event st)),
      (''participant.joined'', ''_handle_participant_joined'', handle_participant_joined),
      (''participant.left'', ''_handle_participant_left'', handle_participant_left),
      (''error.occurred'', ''_handle_error_occurred'',
         \<lambda>env event st. no_raise (handle_error_occurred env event st))]"

definition init_event_handlers :: "exn + (string \<times> handler) list" where
  "init_event_handlers =
     (if list_all (\<lambda>(t, name, h). has_method name) handler_table
      then Inr (map (\<lambda>(t, name, h). (t, h)) handler_table)
      else Inl AttributeError)"

text \<open>
  \<open>_process_event\<close>, with its \<open>try: ... except Exception: return False\<close>. Reading
  \<open>self.event_handlers\<close> raises unless \<open>__init__\<close> has set it. With the dict, the handler
  is looked up by the event type: a list or a dict as event type cannot be hashed and the
  lookup raises; any other value without a handler goes to \<open>self._handle_unknown_event\<close>.
\<close>

definition dispatch :: "(string \<times> handler) list \<Rightarrow> env \<Rightarrow> webhook_event \<Rightarrow> store \<Rightarrow> (exn + bool) \<times> store" where
  "dispatch event_handlers env event st =
     (let unknown = (if has_method ''_handle_unknown_event''
                     then no_raise (handle_unknown_event env event st)
                     else (Inl AttributeError, st))
      in case event_type event of
           PList xs \<Rightarrow> (Inl TypeError, st)
         | PDict kvs \<Rightarrow> (Inl TypeError, st)
         | PStr t \<Rightarrow>
             (case map_of event_handlers t of
                None \<Rightarrow> unknown
              | Some handler \<Rightarrow> handler env event st)
         | _ \<Rightarrow> unknown)"

definition process_event :: "env \<Rightarrow> webhook_event \<Rightarrow> store \<Rightarrow> bool \<times> store" where
  "process_event env event st =
     (case init_event_handlers of
        Inl e \<Rightarrow> (False, st)
      | Inr event_handlers \<Rightarrow> except_false (dispatch event_handlers env event st))"

text \<open>\<open>process_webhook\<close>\<close>

definition process_webhook :: "env \<Rightarrow> (string \<times> pyval) list \<Rightarrow> string \<Rightarrow> store \<Rightarrow> bool \<times> store" where
  "process_webhook env payload src st =
     (case log_webhook env payload src (inbound_logs st) of
        None \<Rightarrow> (False, st)
      | Some (webhook_log_id, logs1) \<Rightarrow>
          (let st1 = st\<lparr>inbound_logs := logs1\<rparr>
           in case parse_webhook_event (strptime env) (parse_utcnow env) payload src of
                None \<Rightarrow> (False, st1)
              | Some event \<Rightarrow>
                  (case process_event env event st1 of
                     (success, st2) \<Rightarrow>
                       (case update_webhook_log env webhook_log_id success (inbound_logs st2) of
                          None \<Rightarrow> (False, st2)
                        | Some logs2 \<Rightarrow> (success, st2\<lparr>inbound_logs := logs2\<rparr>)))))"

section \<open>Predicates used to state the properties\<close>




text \<open>
  A session is clean when it holds no uncommitted change: what it shows is what is on
  disk. \<open>logged_row\<close> is the row that stands for an event in the event log.
\<close>

definition session_clean :: "store \<Rightarrow> bool" where
  "session_clean st = (on_disk st = session_view st)"

definition logged_row :: "webhook_event \<Rightarrow> call_event" where
  "logged_row e = \<lparr>ce_call_id = call_id e, ce_event_type = event_type e, event_data = data e\<rparr>"

text \<open>
  The event types whose handlers look the call up before they do anything
  (\<open>update_types\<close>), and the functions that apply an event: those that look the call up
  (\<open>_update_call_status\<close> with any status and error argument, and the handlers of
  \<open>call.completed\<close>, \<open>recording.ready\<close>, \<open>transcript.ready\<close> and \<open>error.occurred\<close>),
  those that only log the event, the handlers that go through an attribute of \<open>self\<close>
  (as \<open>_process_event\<close> would call them, inside its \<open>try\<close>), and all of them,
  \<open>_handle_call_initiated\<close> and \<open>_process_event\<close> included.
\<close>

definition update_types :: "string list" where
  "update_types =
     [''call.connected'', ''call.answered'', ''call.completed'', ''call.failed'',
      ''call.cancelled'', ''call.no_answer'', ''call.busy'', ''recording.ready'',
      ''transcript.ready'', ''error.occurred'']"

definition lookup_handlers ::
  "env \<Rightarrow> webhook_event \<Rightarrow> string \<Rightarrow> pyval \<Rightarrow> (store \<Rightarrow> bool \<times> store) list" where
  "lookup_handlers env e s err =
     [update_call_status env e s err, handle_call_completed env e, handle_recording_ready env e,
      handle_transcript_ready env e, handle_error_occurred env e]"

definition logging_handlers :: "env \<Rightarrow> webhook_event \<Rightarrow> (store \<Rightarrow> bool \<times> store) list" where
  "logging_handlers env e = [handle_unknown_event env e, log_participant_event env e]"

definition self_handlers :: "env \<Rightarrow> webhook_event \<Rightarrow> (store \<Rightarrow> bool \<times> store) list" where
  "self_handlers env e =
     map (\<lambda>h st. except_false (h env e st))
       [handle_call_connected, handle_call_answered, handle_call_failed, handle_call_cancelled,
        handle_call_no_answer, handle_call_busy, handle_participant_joined,
        handle_participant_left]"

definition all_handlers ::
  "env \<Rightarrow> webhook_event \<Rightarrow> string \<Rightarrow> pyval \<Rightarrow> (store \<Rightarrow> bool \<times> store) list" where
  "all_handlers env e s err =
     handle_call_initiated env e # process_event env e
       # lookup_handlers env e s err @ logging_handlers env e @ self_handlers env e"

section \<open>Example values\<close>

text \<open>
  A phone library that knows one valid number, an environment without faults, an empty
  store, events for the call \<open>c1\<close>, and a store holding one committed record for it.
\<close>

definition example_phone_info :: phone_info where
  "example_phone_info =
     \<lparr>formatted_national = ''(555) 123-4567'', formatted_international = ''+1 555-123-4567'',
      formatted_e164 = ''+15551234567'', country_code = 1, region = PStr ''US'',
      carrier = PNone, location = PNone, timezone = PNone, number_type = PStr ''mobile''\<rparr>"

definition example_env :: env where
  "example_env =
     \<lparr>parse_utcnow = 8000000, strptime = (\<lambda>s fmt. None), fault = NoFault,
      phonelib = (\<lambda>p r. if p = PStr ''+15551234567'' \<or> p = PStr ''(555) 123-4567''
                         then ValidNumber example_phone_info else InvalidNumber),
      log_webhook = (\<lambda>p s logs. Some (PInt 1, logs)),
      update_webhook_log = (\<lambda>i ok logs. Some logs)\<rparr>"

definition empty_store :: store where
  "empty_store =
     \<lparr>call_logs = [], call_events = [], customers = [], inbound_logs = [],
      on_disk = \<lparr>t_call_logs = [], t_call_events = [], t_customers = []\<rparr>\<rparr>"

definition example_event :: "string \<Rightarrow> datetime \<Rightarrow> (string \<times> pyval) list \<Rightarrow> webhook_event" where
  "example_event t ts d =
     \<lparr>event_type = PStr t, call_id = PStr ''c1'', timestamp = ts, data = PDict d,
      source = ''webhook''\<rparr>"

definition example_call :: "string \<Rightarrow> datetime option \<Rightarrow> call_log" where
  "example_call s started =
     \<lparr>cl_id = 1, cl_call_id = PStr ''c1'', room_name = PStr ''room-1'', dispatch_id = PNone,
      customer_id = None, customer_name = PStr ''A'', customer_phone = PStr ''+15551234567'',
      customer_email = PNone, customer_query = PNone, status = s, call_started_at = started,
      call_connected_at = None, call_ended_at = None, duration_seconds = None,
      participant_identity = PNone, call_metadata = PNone\<rparr>"

definition example_store :: "string \<Rightarrow> datetime option \<Rightarrow> store" where
  "example_store s started =
     \<lparr>call_logs = [example_call s started], call_events = [], customers = [],
      inbound_logs = [],
      on_disk = \<lparr>t_call_logs = [example_call s started], t_call_events = [],
                 t_customers = []\<rparr>\<rparr>"

definition example_row :: "nat \<Rightarrow> int \<Rightarrow> datetime option \<Rightarrow> webhook_log" where
  "example_row count cap next =
     \<lparr>webhook_id = ''w1'', wl_call_id = ''c1'', wl_event_type = ''call_failed'',
      wl_payload = PDict [], status_code = Some 500, response_body = Some ''down'',
      retry_count = count, max_retries = cap, next_retry_at = next, delivered = False\<rparr>"


chapter \<open>Properties\<close>

section \<open>Properties of the metrics caches\<close>

text \<open>
  The cache of \<open>monitoring/collectors.py\<close> tests the whole age: an entry is valid exactly
  when it was stored less than 300 s before the query.
\<close>

lemma is_cache_valid_iff:
  "is_cache_valid now cache k \<longleftrightarrow>
     (\<exists>e. cache k = Some e \<and> now - entry_timestamp e < 300 * 1000000)"
  by (auto simp: is_cache_valid_def total_seconds_def cache_ttl_def split: option.splits)

lemma cache_result_valid:
  "is_cache_valid now' (cache_result now cache k d) k \<longleftrightarrow> now' - now < 300 * 1000000"
  by (simp add: is_cache_valid_iff cache_result_def)

text \<open>
  C10. The cache of \<open>monitoring/metrics.py\<close> serves an entry that is one day and ten
  seconds old: its freshness test reads \<open>timedelta.seconds\<close>, which drops the days, so the
  age 86410 s counts as 10 s and the cached value comes back without any recomputation,
  although the entry is far older than the 300 s of the TTL.
\<close>

theorem metrics_cache_serves_day_old_entry:
  "collect_daily_metrics (\<lambda>d. Some (PStr ''fresh'')) ''2024-01-02'' (86410 * 1000000)
     (86411 * 1000000) (Some ''2024-01-01'')
     [''daily_metrics_2024-01-01'' \<mapsto> (PStr ''old'', 0)]
   = (PStr ''old'', [''daily_metrics_2024-01-01'' \<mapsto> (PStr ''old'', 0)])
   \<and> total_seconds (86410 * 1000000 - 0) \<ge> of_int cache_duration"
  by (simp add: collect_daily_metrics_def td_seconds_def cache_duration_def total_seconds_def)

section \<open>Rows found and changed through a query\<close>

lemma length_update_first [simp]: "length (update_first p f xs) = length xs"
  by (induction xs) auto





lemma map_update_first_twice:
  "(\<And>x. p x \<Longrightarrow> p (g x)) \<Longrightarrow> (\<And>x. h (f (g x)) = h (g x)) \<Longrightarrow>
   map h (update_first p f (update_first p g xs)) = map h (update_first p g xs)"
  by (induction xs) auto

lemma find_append_new: "find p xs = None \<Longrightarrow> p x \<Longrightarrow> find p (xs @ [x]) = Some x"
  by (induction xs) (auto split: if_splits)

lemma update_first_append_new:
  "find p xs = None \<Longrightarrow> p x \<Longrightarrow> update_first p f (xs @ [x]) = xs @ [f x]"
  by (induction xs) (auto split: if_splits)

section \<open>Retries of outbound deliveries\<close>

lemma attempt_length [simp]:
  "length (snd (attempt_webhook_delivery post url p wid logs)) = length logs"
  by (simp add: attempt_webhook_delivery_def split: http_outcome.splits option.splits)




lemma schedule_length [simp]: "length (schedule_webhook_retry mgr now wid logs) = length logs"
  by (simp add: schedule_webhook_retry_def split: option.splits)

















text \<open>
  What the sweep does to a row whose first delivery attempt gets a response that is not
  a success: \<open>next_retry_at\<close> is cleared, the attempt is recorded, and the sweep ends on
  the read of \<open>webhook_log.webhook_id\<close> without scheduling another retry. The row keeps
  its \<open>retry_count\<close> and is never due again.
\<close>

lemma sweep_after_failed_attempt:
  "process_webhook_retries (default_webhook_manager [''http://crm.example/hook''])
     (\<lambda>url p wid. Response 503 ''down'') 10 (\<lambda>wid. 20) [example_row 2 3 (Some 5)]
   = [(example_row 2 3 None)\<lparr>status_code := Some 503\<rparr>]"
  by (simp add: process_webhook_retries_def pending_webhooks_def due_def example_row_def
      default_webhook_manager_def attempt_webhook_delivery_def has_webhook_id_def
      opens_session_def)

lemma sweep_after_timeout:
  "process_webhook_retries (default_webhook_manager [''http://crm.example/hook''])
     (\<lambda>url p wid. TimeoutError) 10 (\<lambda>wid. 20) [example_row 2 3 (Some 5)]
   = [example_row 3 3 (Some (20 + 480 * 1000000))]"
  by (simp add: process_webhook_retries_def pending_webhooks_def due_def example_row_def
      default_webhook_manager_def attempt_webhook_delivery_def has_webhook_id_def
      opens_session_def schedule_webhook_retry_def retry_time_def timedelta_seconds_def
      datetime_add_def datetime_min_def datetime_max_def)




section \<open>What the handlers do\<close>

text \<open>
  The names assigned on a \<open>CallLog\<close> that are no attribute of the class, and the
  keywords of the \<open>CallLog\<close> that \<open>_handle_call_initiated\<close> builds, which all are.
\<close>

lemma unmapped_names:
  "list_all (\<lambda>name. name \<notin> set call_log_attributes)
     [''updated_at'', ''duration'', ''recording_url'', ''recording_duration'',
      ''transcript_url'', ''error_details'']"
  by (simp add: call_log_attributes_def)

lemma new_call_log_keywords:
  "list_all (\<lambda>name. name \<in> set call_log_attributes)
     [''call_id'', ''room_name'', ''dispatch_id'', ''customer_name'', ''customer_phone'',
      ''customer_email'', ''customer_query'', ''status'', ''call_started_at'']"
  by (simp add: call_log_attributes_def)

text \<open>
  \<open>CallEvent\<close> has no attribute \<open>call_log_id\<close>: the constructor raises for every handler
  that passes it. With the keyword \<open>call_id\<close> it builds the row.
\<close>

lemma linked_event_raises [simp]: "linked_event log_id e = Inl TypeError"
  by (simp add: linked_event_def CallEvent_def call_event_attributes_def)

lemma unlinked_event_row [simp]: "unlinked_event e = Inr (logged_row e)"
  by (simp add: unlinked_event_def CallEvent_def call_event_attributes_def logged_row_def
      dict_get_def dict_get_default_def)

lemma not_methods [simp]:
  "\<not> has_method ''_update_call_status''"
  "\<not> has_method ''_handle_unknown_event''"
  "\<not> has_method ''_log_participant_event''"
  "\<not> has_method ''_upsert_customer''"
  by (simp_all add: has_method_def processor_methods_def)

lemma init_event_handlers_raises [simp]: "init_event_handlers = Inl AttributeError"
  by (simp add: init_event_handlers_def handler_table_def has_method_def processor_methods_def)

lemma process_event_closed [simp]: "process_event env e st = (False, st)"
  by (simp add: process_event_def)

lemma except_false_simps [simp]:
  "except_false (Inl x, st) = (False, st)"
  "except_false (Inr b, st) = (b, st)"
  by (simp_all add: except_false_def)

lemma self_update_call_status_raises [simp]:
  "self_update_call_status env e s err st = (Inl AttributeError, st)"
  by (simp add: self_update_call_status_def)

text \<open>Rolling back drops what the handler did to the session.\<close>

lemma db_rollback_set_call [simp]: "db_rollback (set_call cid f db) = db_rollback db"
  by (simp add: db_rollback_def set_call_def)

lemma db_rollback_add_call_log [simp]: "db_rollback (add_call_log c db) = db_rollback db"
  by (simp add: db_rollback_def add_call_log_def)

lemma db_rollback_add_call_event [simp]: "db_rollback (add_call_event ev db) = db_rollback db"
  by (simp add: db_rollback_def add_call_event_def)

lemma clean_commit: "session_clean st \<Longrightarrow> db_commit st = st"
  by (cases st) (simp add: session_clean_def db_commit_def session_view_def)

lemma clean_rollback: "session_clean st \<Longrightarrow> db_rollback st = st"
  by (cases st) (auto simp: session_clean_def db_rollback_def session_view_def)

lemma session_clean_commit [simp]: "session_clean (db_commit st)"
  by (simp add: session_clean_def db_commit_def session_view_def)

lemma session_clean_rollback [simp]: "session_clean (db_rollback st)"
  by (cases "on_disk st") (simp add: session_clean_def db_rollback_def session_view_def)

lemma db_commit_twice [simp]: "db_commit (db_commit st) = db_commit st"
  by (simp add: db_commit_def session_view_def)

lemma find_call_session [simp]:
  "find_call (db_commit db) cid = find_call db cid"
  by (simp add: find_call_def db_commit_def)

text \<open>
  Every handler in closed form. A handler that looks the call up ends in a commit when
  the call has no record (nothing was changed) and in a rollback otherwise: with a
  record it always reaches the \<open>CallEvent\<close> constructor, which raises.
  \<open>_handle_call_initiated\<close> always ends in a rollback. The two logging functions add
  the row and commit unless the store raises.
\<close>

lemmas session_defs = get_db_session_def except_false_def add_event_and_commit_def db_close_def

lemma update_call_status_closed:
  "update_call_status env e s err st =
     (False, if fault env \<noteq> QueryFails \<and> find_call st (call_id e) = None
             then db_commit st else db_rollback st)"
  by (simp add: update_call_status_def update_call_status_body_def session_defs
      split: option.splits)

lemma handle_call_completed_closed:
  "handle_call_completed env e st =
     (False, if fault env \<noteq> QueryFails \<and> find_call st (call_id e) = None
             then db_commit st else db_rollback st)"
  by (simp add: handle_call_completed_def handle_call_completed_body_def session_defs
      split: option.splits)

lemma handle_recording_ready_closed:
  "handle_recording_ready env e st =
     (False, if fault env \<noteq> QueryFails \<and> find_call st (call_id e) = None
             then db_commit st else db_rollback st)"
  by (cases "data e")
     (simp_all add: handle_recording_ready_def handle_recording_ready_body_def session_defs
        split: option.splits)

lemma handle_transcript_ready_closed:
  "handle_transcript_ready env e st =
     (False, if fault env \<noteq> QueryFails \<and> find_call st (call_id e) = None
             then db_commit st else db_rollback st)"
  by (cases "data e")
     (simp_all add: handle_transcript_ready_def handle_transcript_ready_body_def session_defs
        split: option.splits)

lemma handle_error_occurred_closed:
  "handle_error_occurred env e st =
     (False, if fault env \<noteq> QueryFails \<and> find_call st (call_id e) = None
             then db_commit st else db_rollback st)"
  by (cases "data e")
     (simp_all add: handle_error_occurred_def handle_error_occurred_body_def session_defs
        split: option.splits)

lemma handle_call_initiated_closed:
  "handle_call_initiated env e st = (False, db_rollback st)"
proof (cases "data e")
  case (PDict d)
  then show ?thesis
    by (cases "find_call st (call_id e)")
       (simp_all add: handle_call_initiated_def handle_call_initiated_body_def session_defs Let_def)
qed (simp_all add: handle_call_initiated_def handle_call_initiated_body_def session_defs)

lemma handle_unknown_event_closed:
  "handle_unknown_event env e st =
     (if fault env = AddCallEventFails \<or> fault env = CommitFails then (False, db_rollback st)
      else (True, db_commit (add_call_event (logged_row e) st)))"
  by (simp add: handle_unknown_event_def session_defs Let_def)

lemma log_participant_event_closed:
  "log_participant_event env e st =
     (if fault env = AddCallEventFails \<or> fault env = CommitFails then (False, db_rollback st)
      else (True, db_commit (add_call_event (logged_row e) st)))"
  by (simp add: log_participant_event_def session_defs Let_def)

lemmas handler_closed = handle_call_initiated_closed update_call_status_closed
  handle_call_completed_closed handle_recording_ready_closed handle_transcript_ready_closed
  handle_error_occurred_closed handle_unknown_event_closed log_participant_event_closed

lemma self_handlers_closed:
  "list_all (\<lambda>h. h st = (False, st)) (self_handlers env e)"
  by (simp add: self_handlers_def handle_call_connected_def handle_call_answered_def
      handle_call_failed_def handle_call_cancelled_def handle_call_no_answer_def
      handle_call_busy_def handle_participant_joined_def handle_participant_left_def
      except_false_def)

lemmas handler_lists = all_handlers_def lookup_handlers_def logging_handlers_def
  self_handlers_def handle_call_connected_def handle_call_answered_def
  handle_call_failed_def handle_call_cancelled_def handle_call_no_answer_def
  handle_call_busy_def handle_participant_joined_def handle_participant_left_def

lemma call_events_logged [simp]:
  "call_events (db_commit (add_call_event r st)) = call_events st @ [r]"
  "call_logs (db_commit (add_call_event r st)) = call_logs st"
  "customers (db_commit (add_call_event r st)) = customers st"
  "find_call (db_commit (add_call_event r st)) cid = find_call st cid"
  by (simp_all add: db_commit_def add_call_event_def find_call_def)

lemmas example_defs = example_env_def empty_store_def example_event_def example_call_def
  example_store_def

lemma example_stores_clean [simp]:
  "session_clean empty_store" "session_clean (example_store s started)"
  by (simp_all add: session_clean_def session_view_def empty_store_def example_store_def)

lemma lookup_handlers_clean:
  assumes "session_clean st"
  shows "list_all (\<lambda>h. h st = (False, st)) (lookup_handlers env e s err)"
    and "handle_call_initiated env e st = (False, st)"
  using assms by (simp_all add: handler_lists handler_closed clean_commit clean_rollback)

lemma logging_handlers_clean:
  assumes "session_clean st"
  shows "list_all (\<lambda>h. h st =
           (if fault env = AddCallEventFails \<or> fault env = CommitFails then (False, st)
            else (True, db_commit (add_call_event (logged_row e) st))))
         (logging_handlers env e)"
  using assms by (simp add: handler_lists handler_closed clean_rollback)

section \<open>Status changes and the terminal statuses\<close>

text \<open>
  C1, the source against the claim. The call \<open>c1\<close> has a committed record with status
  \<open>completed\<close>, and a \<open>call.connected\<close> event arrives for it. \<open>_update_call_status\<close>
  finds the record and assigns the new status in its session (there is no test of the
  old status), then builds the log entry with \<open>CallEvent(call_log_id=...)\<close>, which
  raises \<open>TypeError\<close>: the transaction is rolled back and the function returns \<open>False\<close>.
  The status is still \<open>completed\<close>, but only because of the rollback, and the event is
  not in the event log. Through the class the event does not get that far: the handler
  of \<open>call.connected\<close> raises on \<open>self._update_call_status\<close> and \<open>_process_event\<close> raises
  on \<open>self.event_handlers\<close>. \<open>_handle_unknown_event\<close>, which builds the entry with
  \<open>call_id=...\<close>, logs the same event.
\<close>

theorem terminal_event_not_logged:
  "update_call_status example_env (example_event ''call.connected'' 30 []) ''connected'' PNone
     (example_store ''completed'' (Some 0))
   = (False, example_store ''completed'' (Some 0))
   \<and> fst (update_call_status_body example_env (example_event ''call.connected'' 30 [])
            ''connected'' PNone (example_store ''completed'' (Some 0)))
     = Inl TypeError
   \<and> map status (call_logs (snd (update_call_status_body example_env
            (example_event ''call.connected'' 30 []) ''connected'' PNone
            (example_store ''completed'' (Some 0)))))
     = [''connected'']
   \<and> handle_call_connected example_env (example_event ''call.connected'' 30 [])
        (example_store ''completed'' (Some 0))
     = (Inl AttributeError, example_store ''completed'' (Some 0))
   \<and> process_event example_env (example_event ''call.connected'' 30 [])
        (example_store ''completed'' (Some 0))
     = (False, example_store ''completed'' (Some 0))
   \<and> fst (handle_unknown_event example_env (example_event ''call.connected'' 30 [])
            (example_store ''completed'' (Some 0)))
   \<and> call_events (snd (handle_unknown_event example_env (example_event ''call.connected'' 30 [])
            (example_store ''completed'' (Some 0))))
     = [logged_row (example_event ''call.connected'' 30 [])]"
proof -
  let ?e = "example_event ''call.connected'' 30 []"
  let ?st = "example_store ''completed'' (Some 0)"
  have f: "find_call ?st (call_id ?e) = Some (example_call ''completed'' (Some 0))"
    by (simp add: find_call_def has_call_id_def example_defs)
  have 1: "update_call_status example_env ?e ''connected'' PNone ?st = (False, ?st)"
    by (simp add: update_call_status_closed clean_rollback clean_commit)
  have 2: "fst (update_call_status_body example_env ?e ''connected'' PNone ?st) = Inl TypeError"
    using f by (simp add: update_call_status_body_def add_event_and_commit_def example_env_def)
  have 3: "map status (call_logs (snd (update_call_status_body example_env ?e ''connected'' PNone ?st)))
           = [''connected'']"
    using f
    by (simp add: update_call_status_body_def add_event_and_commit_def example_env_def)
       (simp add: set_call_def status_fields_def plain_attribute_def has_call_id_def example_defs)
  have 4: "handle_call_connected example_env ?e ?st = (Inl AttributeError, ?st)"
    by (simp add: handle_call_connected_def)
  have 5: "process_event example_env ?e ?st = (False, ?st)" by simp
  have 6: "fst (handle_unknown_event example_env ?e ?st)"
    by (simp add: handle_unknown_event_closed example_env_def)
  have 7: "call_events (snd (handle_unknown_event example_env ?e ?st)) = [logged_row ?e]"
    by (simp add: handle_unknown_event_closed example_env_def) (simp add: example_store_def)
  from 1 2 3 4 5 6 7 show ?thesis by simp
qed

section \<open>Events for a call without a record\<close>

text \<open>
  C2, as the source has it. A \<open>recording.ready\<close> event for a call that has no record is
  dropped: the handler returns \<open>False\<close> and the store is unchanged, no placeholder record
  is created.
\<close>

theorem placeholder_counterexample:
  "process_event example_env
     (example_event ''recording.ready'' 0 [(''recording_url'', PStr ''https://rec/1'')]) empty_store
   = (False, empty_store)"
  by simp

text \<open>
  C2 (amended). For every event whose call has no record and whose type is not
  \<open>call.initiated\<close>, applying the event creates no call record (the table of call
  records is unchanged); for the status and enrichment types (\<open>update_types\<close>) the event
  is dropped altogether: the handler returns \<open>False\<close> and the store is unchanged. A
  \<open>call.initiated\<close> event for a call that already has a record does not create a second
  record. This holds for \<open>_process_event\<close>, and it holds for the handler functions
  called on their own, on a session without uncommitted changes: each function that
  looks the call up returns \<open>False\<close> and leaves the store unchanged when the call has no
  record, the two logging functions leave the call records alone, and
  \<open>_handle_call_initiated\<close> on an existing record leaves the list of recorded call ids
  as it is.
\<close>

theorem no_placeholder_record:
  "(find_call st (call_id e) = None \<and> event_type e \<noteq> PStr ''call.initiated'' \<longrightarrow>
      call_logs (snd (process_event env e st)) = call_logs st)
   \<and> (find_call st (call_id e) = None \<and> event_type e \<in> set (map PStr update_types) \<longrightarrow>
      process_event env e st = (False, st))
   \<and> (find_call st (call_id e) \<noteq> None \<and> event_type e = PStr ''call.initiated'' \<longrightarrow>
      map cl_call_id (call_logs (snd (process_event env e st))) = map cl_call_id (call_logs st))
   \<and> (session_clean st \<and> find_call st (call_id e) = None \<longrightarrow>
      list_all (\<lambda>h. h st = (False, st)) (lookup_handlers env e s err))
   \<and> (session_clean st \<longrightarrow>
      list_all (\<lambda>h. call_logs (snd (h st)) = call_logs st) (logging_handlers env e))
   \<and> (session_clean st \<and> find_call st (call_id e) \<noteq> None \<longrightarrow>
      map cl_call_id (call_logs (snd (handle_call_initiated env e st))) = map cl_call_id (call_logs st))"
proof (intro conjI impI)
  assume "session_clean st \<and> find_call st (call_id e) = None"
  then show "list_all (\<lambda>h. h st = (False, st)) (lookup_handlers env e s err)"
    using lookup_handlers_clean(1) by blast
next
  assume c: "session_clean st"
  from logging_handlers_clean[OF c, of env e]
  show "list_all (\<lambda>h. call_logs (snd (h st)) = call_logs st) (logging_handlers env e)"
    by (simp add: logging_handlers_def split: if_splits)
next
  assume "session_clean st \<and> find_call st (call_id e) \<noteq> None"
  then show "map cl_call_id (call_logs (snd (handle_call_initiated env e st)))
             = map cl_call_id (call_logs st)"
    by (simp add: lookup_handlers_clean(2))
qed simp_all

theorem no_placeholder_record_witness:
  "find_call empty_store (call_id (example_event ''recording.ready'' 0 [])) = None
   \<and> call_logs (snd (process_event example_env (example_event ''recording.ready'' 0 []) empty_store))
      = call_logs empty_store
   \<and> process_event example_env (example_event ''recording.ready'' 0 []) empty_store
      = (False, empty_store)
   \<and> find_call (example_store ''connected'' (Some 0)) (call_id (example_event ''call.initiated'' 7 []))
      = Some (example_call ''connected'' (Some 0))
   \<and> map cl_call_id (call_logs (snd (process_event example_env (example_event ''call.initiated'' 7 [])
        (example_store ''connected'' (Some 0)))))
      = map cl_call_id (call_logs (example_store ''connected'' (Some 0)))
   \<and> session_clean empty_store
   \<and> list_all (\<lambda>h. h empty_store = (False, empty_store))
        (lookup_handlers example_env (example_event ''recording.ready'' 0 []) ''busy'' PNone)
   \<and> list_all (\<lambda>h. call_logs (snd (h empty_store)) = call_logs empty_store)
        (logging_handlers example_env (example_event ''recording.ready'' 0 []))
   \<and> session_clean (example_store ''connected'' (Some 0))
   \<and> map cl_call_id (call_logs (snd (handle_call_initiated example_env
        (example_event ''call.initiated'' 7 []) (example_store ''connected'' (Some 0)))))
      = map cl_call_id (call_logs (example_store ''connected'' (Some 0)))"
proof -
  let ?r = "example_event ''recording.ready'' 0 []"
  let ?i = "example_event ''call.initiated'' 7 []"
  let ?st = "example_store ''connected'' (Some 0)"
  have h1: "find_call empty_store (call_id ?r) = None"
    by (simp add: find_call_def empty_store_def)
  have h2: "event_type ?r \<noteq> PStr ''call.initiated''" by (simp add: example_event_def)
  have h3: "event_type ?r \<in> set (map PStr update_types)"
    by (simp add: example_event_def update_types_def)
  have h4: "find_call ?st (call_id ?i) = Some (example_call ''connected'' (Some 0))"
    by (simp add: find_call_def has_call_id_def example_store_def example_call_def example_event_def)
  have h5: "event_type ?i = PStr ''call.initiated''" by (simp add: example_event_def)
  have h6: "session_clean empty_store" and h7: "session_clean ?st" by simp_all
  note t1 = no_placeholder_record[of empty_store ?r example_env "''busy''" PNone]
  note t2 = no_placeholder_record[of ?st ?i example_env "''busy''" PNone]
  from t1 h1 h2 h3
  have a: "call_logs (snd (process_event example_env ?r empty_store)) = call_logs empty_store"
    and b: "process_event example_env ?r empty_store = (False, empty_store)"
    by blast+
  from t2 h4 h5
  have c: "map cl_call_id (call_logs (snd (process_event example_env ?i ?st)))
           = map cl_call_id (call_logs ?st)"
    by simp
  from t1 h1 h6
  have d: "list_all (\<lambda>h. h empty_store = (False, empty_store))
             (lookup_handlers example_env ?r ''busy'' PNone)"
    and e: "list_all (\<lambda>h. call_logs (snd (h empty_store)) = call_logs empty_store)
             (logging_handlers example_env ?r)"
    by blast+
  from t2 h4 h7
  have f: "map cl_call_id (call_logs (snd (handle_call_initiated example_env ?i ?st)))
           = map cl_call_id (call_logs ?st)"
    by simp
  from h1 a b h4 c h6 d e h7 f show ?thesis by blast
qed

section \<open>The audit trail\<close>




section \<open>Payloads without a call identifier\<close>

lemma parse_without_call_id:
  assumes "\<not> truthy (dict_get payload ''call_id'')" "\<not> truthy (dict_get payload ''callId'')"
  shows "parse_webhook_event sp now payload src = None"
  using assms by (simp add: parse_webhook_event_def py_or_def)

text \<open>
  C4 (missing call identifier). For every payload that has no usable value under
  \<open>call_id\<close> nor under \<open>callId\<close> (the key is absent, or its value is \<open>None\<close> or empty),
  \<open>_parse_webhook_event\<close> returns \<open>None\<close>, and \<open>process_webhook\<close> returns \<open>False\<close> and
  leaves the call records, the event log and the customers as they were.
\<close>

theorem missing_call_id_rejected:
  assumes "\<not> truthy (dict_get payload ''call_id'')" and "\<not> truthy (dict_get payload ''callId'')"
  shows "parse_webhook_event sp now payload src = None
         \<and> \<not> fst (process_webhook env payload src st)
         \<and> call_logs (snd (process_webhook env payload src st)) = call_logs st
         \<and> call_events (snd (process_webhook env payload src st)) = call_events st
         \<and> customers (snd (process_webhook env payload src st)) = customers st"
  using parse_without_call_id[OF assms]
  by (simp add: process_webhook_def split: option.splits prod.splits)

theorem missing_call_id_rejected_witness:
  "\<not> truthy (dict_get [(''event_type'', PStr ''call.completed''), (''data'', PDict [])] ''call_id'')
   \<and> \<not> truthy (dict_get [(''event_type'', PStr ''call.completed''), (''data'', PDict [])] ''callId'')
   \<and> parse_webhook_event (strptime example_env) 0
        [(''event_type'', PStr ''call.completed''), (''data'', PDict [])] ''livekit'' = None
   \<and> \<not> fst (process_webhook example_env
        [(''event_type'', PStr ''call.completed''), (''data'', PDict [])] ''livekit''
        (example_store ''connected'' (Some 0)))
   \<and> call_logs (snd (process_webhook example_env
        [(''event_type'', PStr ''call.completed''), (''data'', PDict [])] ''livekit''
        (example_store ''connected'' (Some 0))))
     = call_logs (example_store ''connected'' (Some 0))
   \<and> call_events (snd (process_webhook example_env
        [(''event_type'', PStr ''call.completed''), (''data'', PDict [])] ''livekit''
        (example_store ''connected'' (Some 0))))
     = call_events (example_store ''connected'' (Some 0))"
proof -
  let ?p = "[(''event_type'', PStr ''call.completed''), (''data'', PDict [])]"
  have h1: "\<not> truthy (dict_get ?p ''call_id'')" by (simp add: dict_get_def dict_get_default_def)
  have h2: "\<not> truthy (dict_get ?p ''callId'')" by (simp add: dict_get_def dict_get_default_def)
  from missing_call_id_rejected[OF h1 h2, of "strptime example_env" 0 "''livekit''" example_env
      "example_store ''connected'' (Some 0)"] h1 h2
  show ?thesis by simp
qed

section \<open>The phone number of a new call\<close>

lemma validation_result_truthy: "truthy (validate_phone_number lib phone r)"
  by (simp add: validate_phone_number_def validation_result_def Let_def split: phone_lookup.splits)

lemma checked_phone_is_result:
  "truthy phone \<Longrightarrow> checked_phone env phone = validate_phone_number (phonelib env) phone None"
  by (simp add: checked_phone_def Let_def validation_result_truthy)

text \<open>
  C5, the source against the claim. A \<open>call.initiated\<close> event for a new call carries
  the valid number \<open>+15551234567\<close>. The handler replaces \<open>customer_phone\<close> by what
  \<open>validate_phone_number\<close> returns, and that is the whole validation result, a dict
  (always truthy), not the E.164 string: the \<open>CallLog\<close> it adds to the session has the
  dict as \<open>customer_phone\<close>. The sibling \<open>format_for_dialing\<close> returns the E.164 string
  for the same input. With the number \<open>12\<close>, which is not valid, the value is the result
  dict again, not the original string. The record is not stored in either case: the
  handler goes on to \<open>CallEvent(call_log_id=...)\<close>, which raises \<open>TypeError\<close>, the
  session is rolled back and the handler returns \<open>False\<close>.
\<close>

theorem initiated_phone_not_normalised:
  "map customer_phone (call_logs (snd (handle_call_initiated_body example_env
       (example_event ''call.initiated'' 0
          [(''customer_phone'', PStr ''+15551234567''), (''customer_name'', PStr ''A'')])
       empty_store)))
   = [validation_result True (Some example_phone_info) PNone]
   \<and> format_for_dialing (phonelib example_env) (PStr ''+15551234567'') None = PStr ''+15551234567''
   \<and> map customer_phone (call_logs (snd (handle_call_initiated_body example_env
       (example_event ''call.initiated'' 0
          [(''customer_phone'', PStr ''12''), (''customer_name'', PStr ''A'')])
       empty_store)))
   = [validation_result False None (PStr ''Invalid phone number'')]
   \<and> fst (handle_call_initiated_body example_env
       (example_event ''call.initiated'' 0
          [(''customer_phone'', PStr ''+15551234567''), (''customer_name'', PStr ''A'')])
       empty_store)
   = Inl TypeError
   \<and> handle_call_initiated example_env
       (example_event ''call.initiated'' 0
          [(''customer_phone'', PStr ''+15551234567''), (''customer_name'', PStr ''A'')])
       empty_store
   = (False, empty_store)"
proof -
  let ?e = "example_event ''call.initiated'' 0
              [(''customer_phone'', PStr ''+15551234567''), (''customer_name'', PStr ''A'')]"
  let ?e' = "example_event ''call.initiated'' 0
              [(''customer_phone'', PStr ''12''), (''customer_name'', PStr ''A'')]"
  have v: "validate_phone_number (phonelib example_env) (PStr ''+15551234567'') None
           = validation_result True (Some example_phone_info) PNone"
    by (simp add: validate_phone_number_def example_env_def)
  have v': "validate_phone_number (phonelib example_env) (PStr ''12'') None
           = validation_result False None (PStr ''Invalid phone number'')"
    by (simp add: validate_phone_number_def example_env_def)
  have f: "find_call empty_store (PStr ''c1'') = None" by (simp add: find_call_def empty_store_def)
  have nf: "fault example_env = NoFault" by (simp add: example_env_def)
  have 1: "map customer_phone (call_logs (snd (handle_call_initiated_body example_env ?e empty_store)))
           = [validation_result True (Some example_phone_info) PNone]"
    using f nf
    by (simp add: handle_call_initiated_body_def example_event_def dict_get_def
        dict_get_default_def py_or_def checked_phone_is_result v Let_def)
       (simp add: add_call_log_def new_call_log_def empty_store_def)
  have 2: "format_for_dialing (phonelib example_env) (PStr ''+15551234567'') None
           = PStr ''+15551234567''"
    by (simp add: format_for_dialing_def v)
       (simp add: validation_result_def dict_get_def dict_get_default_def example_phone_info_def)
  have 3: "map customer_phone (call_logs (snd (handle_call_initiated_body example_env ?e' empty_store)))
           = [validation_result False None (PStr ''Invalid phone number'')]"
    using f nf
    by (simp add: handle_call_initiated_body_def example_event_def dict_get_def
        dict_get_default_def py_or_def checked_phone_is_result v' Let_def)
       (simp add: add_call_log_def new_call_log_def empty_store_def)
  have 4: "fst (handle_call_initiated_body example_env ?e empty_store) = Inl TypeError"
    using f nf
    by (simp add: handle_call_initiated_body_def example_event_def Let_def)
  have 5: "handle_call_initiated example_env ?e empty_store = (False, empty_store)"
    by (simp add: handle_call_initiated_closed clean_rollback)
  from 1 2 3 4 5 show ?thesis by simp
qed

section \<open>Duration of a completed call\<close>

text \<open>
  C6, the source against the claim. The call \<open>c1\<close> has a committed record with status
  \<open>connected\<close> and \<open>call_started_at\<close> at 30 s; a \<open>call.completed\<close> event with timestamp
  90 s arrives. \<open>_handle_call_completed\<close> sets \<open>status\<close> and \<open>call_ended_at\<close> of the
  record in its session; the duration goes to an attribute \<open>duration\<close> that \<open>CallLog\<close>
  does not have (its column is \<open>duration_seconds\<close>, which stays empty); then
  \<open>CallEvent(call_log_id=...)\<close> raises \<open>TypeError\<close>, the session is rolled back and the
  handler returns \<open>False\<close>. Nothing of the event is stored: the record still has status
  \<open>connected\<close>, no \<open>call_ended_at\<close> and no duration.
\<close>

theorem completed_not_stored:
  "handle_call_completed example_env (example_event ''call.completed'' 90000000 [])
     (example_store ''connected'' (Some 30000000))
   = (False, example_store ''connected'' (Some 30000000))
   \<and> fst (handle_call_completed_body example_env (example_event ''call.completed'' 90000000 [])
            (example_store ''connected'' (Some 30000000)))
     = Inl TypeError
   \<and> map (\<lambda>c. (status c, call_ended_at c, duration_seconds c))
       (call_logs (snd (handle_call_completed_body example_env
          (example_event ''call.completed'' 90000000 [])
          (example_store ''connected'' (Some 30000000)))))
     = [(''completed'', Some 90000000, None)]
   \<and> ''duration'' \<notin> set call_log_attributes
   \<and> ''duration_seconds'' \<in> set call_log_attributes"
proof -
  let ?e = "example_event ''call.completed'' 90000000 []"
  let ?st = "example_store ''connected'' (Some 30000000)"
  have f: "find_call ?st (call_id ?e) = Some (example_call ''connected'' (Some 30000000))"
    by (simp add: find_call_def has_call_id_def example_defs)
  have nf: "fault example_env = NoFault" by (simp add: example_env_def)
  have 1: "handle_call_completed example_env ?e ?st = (False, ?st)"
    by (simp add: handle_call_completed_closed clean_rollback clean_commit)
  have 2: "fst (handle_call_completed_body example_env ?e ?st) = Inl TypeError"
    using f nf by (simp add: handle_call_completed_body_def add_event_and_commit_def)
  have 3: "map (\<lambda>c. (status c, call_ended_at c, duration_seconds c))
             (call_logs (snd (handle_call_completed_body example_env ?e ?st)))
           = [(''completed'', Some 90000000, None)]"
    using f nf
    by (simp add: handle_call_completed_body_def add_event_and_commit_def)
       (simp add: set_call_def completed_fields_def plain_attribute_def has_call_id_def example_defs)
  have 4: "''duration'' \<notin> set call_log_attributes \<and> ''duration_seconds'' \<in> set call_log_attributes"
    by (simp add: call_log_attributes_def)
  from 1 2 3 4 show ?thesis by simp
qed

section \<open>Applying an event twice\<close>




section \<open>One transaction for the record and its log entry\<close>

text \<open>
  C9 (atomicity). Every function that applies an event runs in one \<open>get_db_session\<close>
  block. Started on a session without uncommitted changes, with any store call failing
  or none, it leaves a session without uncommitted changes: what the next query sees
  is what is on disk. The store it leaves is either the one it found or the one that
  the same call leaves when no store call fails, nothing in between; and whenever the
  function returns \<open>False\<close>, the store is exactly the one it found: the assignments made
  to the call record before the failure are rolled back with the rest. The call records
  never change unless the log entry of the event is appended with them.
\<close>

theorem transaction_atomic:
  assumes "session_clean st"
  shows "list_all (\<lambda>(h, full).
             session_clean (snd (h st)) \<and>
             (snd (h st) = st \<or> snd (h st) = snd (full st)) \<and>
             (fst (h st) \<or> snd (h st) = st) \<and>
             (call_logs (snd (h st)) = call_logs st \<or>
              call_events (snd (h st)) = call_events st @ [logged_row e]))
           (zip (all_handlers env e s err) (all_handlers (env\<lparr>fault := NoFault\<rparr>) e s err))"
  using assms
  by (simp add: handler_lists handler_closed clean_commit clean_rollback except_false_def)

theorem transaction_atomic_witness:
  "session_clean (example_store ''connected'' (Some 0))
   \<and> list_all (\<lambda>(h, full).
         session_clean (snd (h (example_store ''connected'' (Some 0)))) \<and>
         (snd (h (example_store ''connected'' (Some 0))) = example_store ''connected'' (Some 0) \<or>
          snd (h (example_store ''connected'' (Some 0)))
            = snd (full (example_store ''connected'' (Some 0)))) \<and>
         (fst (h (example_store ''connected'' (Some 0))) \<or>
          snd (h (example_store ''connected'' (Some 0))) = example_store ''connected'' (Some 0)) \<and>
         (call_logs (snd (h (example_store ''connected'' (Some 0))))
            = call_logs (example_store ''connected'' (Some 0)) \<or>
          call_events (snd (h (example_store ''connected'' (Some 0))))
            = call_events (example_store ''connected'' (Some 0))
              @ [logged_row (example_event ''call.completed'' 60000000 [])]))
       (zip (all_handlers (example_env\<lparr>fault := CommitFails\<rparr>)
               (example_event ''call.completed'' 60000000 []) ''completed'' PNone)
            (all_handlers (example_env\<lparr>fault := CommitFails, fault := NoFault\<rparr>)
               (example_event ''call.completed'' 60000000 []) ''completed'' PNone))
   \<and> list_all (\<lambda>(h, full).
         session_clean (snd (h (example_store ''connected'' (Some 0)))) \<and>
         (snd (h (example_store ''connected'' (Some 0))) = example_store ''connected'' (Some 0) \<or>
          snd (h (example_store ''connected'' (Some 0)))
            = snd (full (example_store ''connected'' (Some 0)))) \<and>
         (fst (h (example_store ''connected'' (Some 0))) \<or>
          snd (h (example_store ''connected'' (Some 0))) = example_store ''connected'' (Some 0)) \<and>
         (call_logs (snd (h (example_store ''connected'' (Some 0))))
            = call_logs (example_store ''connected'' (Some 0)) \<or>
          call_events (snd (h (example_store ''connected'' (Some 0))))
            = call_events (example_store ''connected'' (Some 0))
              @ [logged_row (example_event ''call.completed'' 60000000 [])]))
       (zip (all_handlers example_env
               (example_event ''call.completed'' 60000000 []) ''completed'' PNone)
            (all_handlers (example_env\<lparr>fault := NoFault\<rparr>)
               (example_event ''call.completed'' 60000000 []) ''completed'' PNone))"
proof -
  have h: "session_clean (example_store ''connected'' (Some 0))" by simp
  from transaction_atomic[OF h, where env = "example_env\<lparr>fault := CommitFails\<rparr>"
      and e = "example_event ''call.completed'' 60000000 []" and s = "''completed''"
      and err = PNone]
    transaction_atomic[OF h, where env = example_env
      and e = "example_event ''call.completed'' 60000000 []" and s = "''completed''"
      and err = PNone] h
  show ?thesis by blast
qed

end
